theory Spec2Isabelle
  imports Main
begin

section \<open>JavaScript values, errors and responses\<close>

text \<open>
  The values that \<^verbatim>\<open>server.js\<close> compares with \<^verbatim>\<open>===\<close> and serialises with
  \<^verbatim>\<open>res.json\<close>. A property that is not there reads as \<open>JUndefined\<close>.
\<close>

datatype jsval =
    JUndefined
  | JNull
  | JBool bool
  | JNum int
  | JStr string
  | JObj "(string \<times> jsval) list"

text \<open>
  What \<^verbatim>\<open>server.js\<close> reads of a thrown or forwarded error: \<^verbatim>\<open>error.code\<close> and
  \<^verbatim>\<open>error.message\<close>. A thrown value that is no Error object has both undefined.
\<close>

record js_error =
  code :: jsval
  message :: jsval

datatype body = Empty | Json "(string \<times> jsval) list"

record response =
  status :: nat
  body :: body

text \<open>
  \<^verbatim>\<open>res.json(obj)\<close> writes \<^verbatim>\<open>JSON.stringify(obj)\<close>, which leaves out every key
  whose value is undefined.
\<close>

definition json :: "(string \<times> jsval) list \<Rightarrow> body" where
  "json kvs = Json (filter (\<lambda>kv. snd kv \<noteq> JUndefined) kvs)"

fun field :: "string \<Rightarrow> response \<Rightarrow> jsval option" where
  "field k r = (case body r of Empty \<Rightarrow> None | Json kvs \<Rightarrow> map_of kvs k)"

text \<open>
  A handler ends in one of three ways: it calls \<^verbatim>\<open>next()\<close>, it calls
  \<^verbatim>\<open>next(err)\<close> (or throws, which Express turns into \<^verbatim>\<open>next(err)\<close>), or it answers
  the request.
\<close>

datatype outcome = Next | Fail js_error | Respond response

section \<open>Strings\<close>

fun starts_with :: "string \<Rightarrow> string \<Rightarrow> bool" where
  "starts_with [] s = True"
| "starts_with (p # ps) [] = False"
| "starts_with (p # ps) (c # cs) = (p = c \<and> starts_with ps cs)"

text \<open>Case folding of the letters \<open>A\<close> to \<open>Z\<close>; every other byte stays.\<close>

definition to_lower :: "char \<Rightarrow> char" where
  "to_lower c =
     (let n = (of_char c :: nat) in if 65 \<le> n \<and> n \<le> 90 then char_of (n + 32) else c)"

section \<open>The CORS origin callback (server.js, lines 10-32)\<close>

definition allowedOrigins :: "string list" where
  "allowedOrigins =
     [''https://svgviewer-alpha.vercel.app'',
      ''http://localhost:3000'',
      ''http://localhost:5173'']"

text \<open>\<^verbatim>\<open>Array.prototype.indexOf\<close>: the first index of the element, \<open>-1\<close> when absent.\<close>

fun indexOf :: "'a list \<Rightarrow> 'a \<Rightarrow> int" where
  "indexOf [] x = - 1"
| "indexOf (y # ys) x =
     (if y = x then 0
      else (let i = indexOf ys x in if i = - 1 then - 1 else i + 1))"

text \<open>
  The \<^verbatim>\<open>origin\<close> option of \<^verbatim>\<open>cors\<close>. Its argument is \<^verbatim>\<open>req.headers.origin\<close>:
  \<open>None\<close> when the request has no Origin header, \<open>Some s\<close> otherwise. \<^verbatim>\<open>!origin\<close> holds of
  undefined and of the empty string. The result is what the callback is called with:
  \<open>Inr True\<close> for \<^verbatim>\<open>callback(null, true)\<close>, \<open>Inl e\<close> for \<^verbatim>\<open>callback(e)\<close>.
\<close>

definition cors_error :: js_error where
  "cors_error = \<lparr>code = JUndefined, message = JStr ''Not allowed by CORS''\<rparr>"

definition origin_callback :: "string option \<Rightarrow> js_error + bool" where
  "origin_callback header =
     (case header of
        None \<Rightarrow> Inr True
      | Some s \<Rightarrow>
          if s = [] then Inr True
          else if indexOf allowedOrigins s \<noteq> - 1 then Inr True
          else Inl cors_error)"

section \<open>The error handling middleware (server.js, lines 104-126)\<close>

text \<open>\<open>node_env\<close> is \<^verbatim>\<open>process.env.NODE_ENV\<close>, \<open>None\<close> when the variable is not set.\<close>

definition error_handler :: "string option \<Rightarrow> js_error \<Rightarrow> response" where
  "error_handler node_env error =
     (if code error = JStr ''LIMIT_FILE_SIZE'' then
        \<lparr>status = 400,
         body = json [(''success'', JBool False),
                      (''message'', JStr ''File size too large. Maximum size is 5MB.'')]\<rparr>
      else if message error = JStr ''Only SVG files are allowed'' then
        \<lparr>status = 400,
         body = json [(''success'', JBool False),
                      (''message'', JStr ''Only SVG files are allowed'')]\<rparr>
      else
        \<lparr>status = 500,
         body = json [(''success'', JBool False),
                      (''message'', JStr ''Internal server error''),
                      (''error'', if node_env = Some ''development'' then message error
                                  else JStr ''Something went wrong'')]\<rparr>)"

section \<open>The health check (server.js, lines 70-92)\<close>

text \<open>
  What the handler reads of the process: \<^verbatim>\<open>new Date().toISOString()\<close>,
  \<^verbatim>\<open>process.uptime()\<close> and \<^verbatim>\<open>process.memoryUsage()\<close>.
\<close>

record proc_info =
  timestamp :: string
  uptime :: jsval
  memory :: jsval

text \<open>
  What a \<^verbatim>\<open>catch\<close> receives. Any value can be thrown; reading a property of
  \<^verbatim>\<open>null\<close> or \<^verbatim>\<open>undefined\<close> throws a TypeError, reading one of anything else gives the
  property or \<^verbatim>\<open>undefined\<close>.
\<close>

datatype thrown = ThrownNull | ThrownUndefined | Thrown js_error

text \<open>The TypeError of \<^verbatim>\<open>error.message\<close> on null or undefined, in the wording of Node 18.\<close>

definition type_error_reading_message :: "string \<Rightarrow> js_error" where
  "type_error_reading_message what =
     \<lparr>code = JUndefined,
      message = JStr (''Cannot read properties of '' @ what @ '' (reading 'message')'')\<rparr>"

text \<open>
  \<^verbatim>\<open>getDatabase\<close> is imported from \<^verbatim>\<open>database.js\<close>; the handler only distinguishes
  whether the call returns (\<open>Inr\<close> the handle) or throws (\<open>Inl\<close> the thrown value), so the
  outcome of the call is the handler's argument. \<^verbatim>\<open>res.json\<close> without
  \<^verbatim>\<open>res.status\<close> answers 200. In the \<^verbatim>\<open>catch\<close> the object for \<^verbatim>\<open>res.json\<close> is built
  first: when \<^verbatim>\<open>error.message\<close> throws, nothing is sent and the TypeError leaves the
  handler.
\<close>

definition health_handler :: "proc_info \<Rightarrow> thrown + 'db \<Rightarrow> outcome" where
  "health_handler info getDatabase_result =
     (case getDatabase_result of
        Inr db \<Rightarrow>
          Respond
            \<lparr>status = 200,
             body = json [(''success'', JBool True),
                          (''message'', JStr ''SVG Holder API is running''),
                          (''timestamp'', JStr (timestamp info)),
                          (''uptime'', uptime info),
                          (''memory'', memory info),
                          (''database'', JStr ''connected'')]\<rparr>
      | Inl ThrownNull \<Rightarrow> Fail (type_error_reading_message ''null'')
      | Inl ThrownUndefined \<Rightarrow> Fail (type_error_reading_message ''undefined'')
      | Inl (Thrown error) \<Rightarrow>
          Respond
            \<lparr>status = 200,
             body = json [(''success'', JBool False),
                          (''message'',
                           JStr ''SVG Holder API is running but database is disconnected''),
                          (''timestamp'', JStr (timestamp info)),
                          (''uptime'', uptime info),
                          (''memory'', memory info),
                          (''database'', JStr ''disconnected''),
                          (''error'', message error)]\<rparr>)"

definition keepalive_handler :: "proc_info \<Rightarrow> response" where
  "keepalive_handler info =
     \<lparr>status = 200,
      body = json [(''success'', JBool True),
                   (''message'', JStr ''Server is alive''),
                   (''timestamp'', JStr (timestamp info))]\<rparr>"

definition not_found_handler :: response where
  "not_found_handler =
     \<lparr>status = 404,
      body = json [(''success'', JBool False), (''message'', JStr ''Route not found'')]\<rparr>"

section \<open>The request timeout middleware (server.js, lines 50-58)\<close>

text \<open>
  \<^verbatim>\<open>req.setTimeout(ms, callback)\<close> makes \<^verbatim>\<open>callback\<close> a listener of the request's
  \<^verbatim>\<open>timeout\<close> event and sets the inactivity timeout of the request's socket to
  \<^verbatim>\<open>ms\<close>. A timer is the delay and what the callback answers.
\<close>

record timer =
  delay_ms :: nat
  on_timeout :: response

definition timeout_response :: response where
  "timeout_response =
     \<lparr>status = 408,
      body = json [(''success'', JBool False), (''message'', JStr ''Request timeout'')]\<rparr>"

text \<open>The middleware: it arms the timer and calls \<^verbatim>\<open>next()\<close>.\<close>

definition timeout_mw :: "'r \<Rightarrow> timer \<times> outcome" where
  "timeout_mw req = (\<lparr>delay_ms = 30000, on_timeout = timeout_response\<rparr>, Next)"

text \<open>
  A request that has not been answered yet, as the runtime sees it: whether its message
  (headers and body) has been received completely, how long its socket has been
  inactive, and how long ago the request arrived.
\<close>

record waiting =
  received_complete :: bool
  idle_ms :: nat
  elapsed_ms :: nat

datatype timeout_result = NothingYet | CallbackAnswers response | SocketDestroyed

text \<open>
  Node's HTTP server and an armed timer. Nothing happens before the socket has been
  inactive for the delay, whatever the time since the request arrived. Then the server
  emits \<^verbatim>\<open>timeout\<close> on the request only while its message is incomplete, and the
  callback answers; for a completely received request no listener takes the event and
  the server destroys the socket.
\<close>

definition socket_timeout :: "timer \<Rightarrow> waiting \<Rightarrow> timeout_result" where
  "socket_timeout t w =
     (if idle_ms w < delay_ms t then NothingYet
      else if received_complete w then SocketDestroyed
      else CallbackAnswers (on_timeout t))"

section \<open>The middleware chain (server.js, lines 10-134)\<close>

record request =
  req_method :: string
  path :: string
  origin :: "string option"

datatype handler =
    Normal "request \<Rightarrow> outcome"
  | OnError "js_error \<Rightarrow> request \<Rightarrow> outcome"

datatype stage =
    CorsMw | KeepAliveHeadersMw | DebugLogMw | TimeoutMw | JsonBodyMw | UrlencodedMw
  | OptionsRoute | SvgRoutes | HealthRoute | KeepaliveRoute | ErrorMw | NotFoundMw

record layer =
  l_stage :: stage
  l_match :: "request \<Rightarrow> bool"
  l_handler :: handler

text \<open>
  Express walks the layers in the order of their registration. Without a pending error it
  runs the matching handlers of three arguments and passes over the error handlers; with a
  pending error it passes over everything but the error handlers. The result is the list
  of stages whose handler ran and the response, \<open>None\<close> when no layer of the application
  answered.
\<close>

fun dispatch :: "layer list \<Rightarrow> js_error option \<Rightarrow> request \<Rightarrow> stage list \<times> response option" where
  "dispatch [] err req = ([], None)"
| "dispatch (l # ls) err req =
     (if \<not> l_match l req then dispatch ls err req
      else
        (case (l_handler l, err) of
           (Normal h, None) \<Rightarrow>
             (case h req of
                Next \<Rightarrow> (let (st, r) = dispatch ls None req in (l_stage l # st, r))
              | Fail e \<Rightarrow> (let (st, r) = dispatch ls (Some e) req in (l_stage l # st, r))
              | Respond r \<Rightarrow> ([l_stage l], Some r))
         | (Normal h, Some e) \<Rightarrow> dispatch ls err req
         | (OnError h, None) \<Rightarrow> dispatch ls err req
         | (OnError h, Some e) \<Rightarrow>
             (case h e req of
                Next \<Rightarrow> (let (st, r) = dispatch ls None req in (l_stage l # st, r))
              | Fail e' \<Rightarrow> (let (st, r) = dispatch ls (Some e') req in (l_stage l # st, r))
              | Respond r \<Rightarrow> ([l_stage l], Some r))))"

text \<open>
  The \<^verbatim>\<open>cors\<close> package with an \<^verbatim>\<open>origin\<close> function: an error of the callback is
  passed to \<^verbatim>\<open>next\<close>; otherwise the headers are set, an \<^verbatim>\<open>OPTIONS\<close> request is
  answered at once with \<^verbatim>\<open>optionsSuccessStatus\<close> and an empty body, and any other
  request goes on.
\<close>

definition cors_mw :: "request \<Rightarrow> outcome" where
  "cors_mw req =
     (case origin_callback (origin req) of
        Inl e \<Rightarrow> Fail e
      | Inr allowed \<Rightarrow>
          if req_method req = ''OPTIONS'' then Respond \<lparr>status = 200, body = Empty\<rparr>
          else Next)"

text \<open>
  The parts of the chain that are not in \<^verbatim>\<open>server.js\<close>: the two body parsers of
  Express and the router of \<^verbatim>\<open>routes/svgs.js\<close>. The chain takes them as they are.
\<close>

record deps =
  json_parser :: "request \<Rightarrow> outcome"
  urlencoded_parser :: "request \<Rightarrow> outcome"
  svgRoutes :: "request \<Rightarrow> outcome"
  getDatabase :: "unit \<Rightarrow> thrown + unit"
  clock :: proc_info

text \<open>
  Express matches paths without regard to case and lets a trailing slash pass.
  \<^verbatim>\<open>app.use(p, ...)\<close> matches the path \<open>p\<close> and everything below it;
  \<^verbatim>\<open>app.get(p, ...)\<close> matches the path \<open>p\<close> for \<^verbatim>\<open>GET\<close> and, there being no handler of
  its own, for \<^verbatim>\<open>HEAD\<close>.
\<close>

definition mounted_at :: "string \<Rightarrow> request \<Rightarrow> bool" where
  "mounted_at p req =
     (map to_lower (path req) = map to_lower p \<or>
      starts_with (map to_lower p @ ''/'') (map to_lower (path req)))"

definition get_route :: "string \<Rightarrow> request \<Rightarrow> bool" where
  "get_route p req =
     ((req_method req = ''GET'' \<or> req_method req = ''HEAD'') \<and>
      (map to_lower (path req) = map to_lower p \<or>
       map to_lower (path req) = map to_lower p @ ''/''))"

definition app :: "deps \<Rightarrow> string option \<Rightarrow> layer list" where
  "app d node_env =
     [\<lparr>l_stage = CorsMw, l_match = (\<lambda>_. True), l_handler = Normal cors_mw\<rparr>,
      \<lparr>l_stage = KeepAliveHeadersMw, l_match = (\<lambda>_. True), l_handler = Normal (\<lambda>_. Next)\<rparr>,
      \<lparr>l_stage = DebugLogMw, l_match = (\<lambda>_. True), l_handler = Normal (\<lambda>_. Next)\<rparr>,
      \<lparr>l_stage = TimeoutMw, l_match = (\<lambda>_. True),
       l_handler = Normal (\<lambda>r. snd (timeout_mw r))\<rparr>,
      \<lparr>l_stage = JsonBodyMw, l_match = (\<lambda>_. True), l_handler = Normal (json_parser d)\<rparr>,
      \<lparr>l_stage = UrlencodedMw, l_match = (\<lambda>_. True), l_handler = Normal (urlencoded_parser d)\<rparr>,
      \<lparr>l_stage = OptionsRoute, l_match = (\<lambda>r. req_method r = ''OPTIONS''),
       l_handler = Normal (\<lambda>_. Respond \<lparr>status = 204, body = Empty\<rparr>)\<rparr>,
      \<lparr>l_stage = SvgRoutes, l_match = mounted_at ''/api/svgs'', l_handler = Normal (svgRoutes d)\<rparr>,
      \<lparr>l_stage = HealthRoute, l_match = get_route ''/api/health'',
       l_handler = Normal (\<lambda>_. health_handler (clock d) (getDatabase d ()))\<rparr>,
      \<lparr>l_stage = KeepaliveRoute, l_match = get_route ''/api/keepalive'',
       l_handler = Normal (\<lambda>_. Respond (keepalive_handler (clock d)))\<rparr>,
      \<lparr>l_stage = ErrorMw, l_match = (\<lambda>_. True),
       l_handler = OnError (\<lambda>e _. Respond (error_handler node_env e))\<rparr>,
      \<lparr>l_stage = NotFoundMw, l_match = (\<lambda>_. True),
       l_handler = Normal (\<lambda>_. Respond not_found_handler)\<rparr>]"

definition route_stages :: "stage set" where
  "route_stages = {OptionsRoute, SvgRoutes, HealthRoute, KeepaliveRoute, NotFoundMw}"

text \<open>
  The timer of a request: armed when the chain ran the timeout middleware for it, none
  when the request never got there.
\<close>

definition armed_timer :: "deps \<Rightarrow> string option \<Rightarrow> request \<Rightarrow> timer option" where
  "armed_timer d node_env req =
     (if TimeoutMw \<in> set (fst (dispatch (app d node_env) None req))
      then Some (fst (timeout_mw req)) else None)"

section \<open>Startup and shutdown (server.js, lines 137-167)\<close>

text \<open>How an awaited call ends: its promise is fulfilled, is rejected, or never settles.\<close>

datatype 'a settled = Fulfilled 'a | Rejected js_error | Pending

text \<open>
  What the process does, in order. \<open>UnhandledRejection\<close> is a rejection that leaves an
  async function which nothing awaits.
\<close>

datatype event =
    ConnectCalled
  | ListenCalled nat
  | CloseCalled
  | Logged string
  | ErrorLogged js_error
  | ExitCalled nat
  | UnhandledRejection js_error

text \<open>
  \<^verbatim>\<open>startServer\<close>. \<^verbatim>\<open>connectToDatabase\<close> is imported from \<^verbatim>\<open>database.js\<close>; how the
  awaited call ends is the first argument. \<^verbatim>\<open>app.listen\<close> stands inside the same
  \<^verbatim>\<open>try\<close>, so an exception it throws is the second argument. \<^verbatim>\<open>process.exit\<close>
  does not return. The three lines that the callback of \<^verbatim>\<open>app.listen\<close> prints once the
  server listens are not events of the model.
\<close>

definition startServer :: "nat \<Rightarrow> unit settled \<Rightarrow> js_error + unit \<Rightarrow> event list" where
  "startServer port connect_result listen_result =
     ConnectCalled #
     (case connect_result of
        Pending \<Rightarrow> []
      | Rejected error \<Rightarrow> [ErrorLogged error, ExitCalled 1]
      | Fulfilled _ \<Rightarrow>
          ListenCalled port #
          (case listen_result of
             Inl error \<Rightarrow> [ErrorLogged error, ExitCalled 1]
           | Inr _ \<Rightarrow> []))"

datatype signal = SIGINT | SIGTERM

text \<open>
  The line both handlers log: a newline, the sign U+1F6D1 (four bytes in UTF-8, as
  \<^verbatim>\<open>console.log\<close> writes it), a space and the text.
\<close>

definition shutdown_message :: string where
  "shutdown_message =
     [CHR 0x0A, CHR 0xF0, CHR 0x9F, CHR 0x9B, CHR 0x91] @ '' Shutting down server...''"

text \<open>
  The two signal handlers. \<^verbatim>\<open>closeDatabaseConnection\<close> is imported from
  \<^verbatim>\<open>database.js\<close>; how the awaited call ends is the argument. Neither handler has a
  \<^verbatim>\<open>try\<close>: a rejection leaves the handler at the \<^verbatim>\<open>await\<close>.
\<close>

definition on_SIGINT :: "unit settled \<Rightarrow> event list" where
  "on_SIGINT close_result =
     Logged shutdown_message # CloseCalled #
     (case close_result of
        Fulfilled _ \<Rightarrow> [ExitCalled 0]
      | Rejected error \<Rightarrow> [UnhandledRejection error]
      | Pending \<Rightarrow> [])"

definition on_SIGTERM :: "unit settled \<Rightarrow> event list" where
  "on_SIGTERM close_result =
     Logged shutdown_message # CloseCalled #
     (case close_result of
        Fulfilled _ \<Rightarrow> [ExitCalled 0]
      | Rejected error \<Rightarrow> [UnhandledRejection error]
      | Pending \<Rightarrow> [])"

fun on_signal :: "signal \<Rightarrow> unit settled \<Rightarrow> event list" where
  "on_signal SIGINT c = on_SIGINT c"
| "on_signal SIGTERM c = on_SIGTERM c"

section \<open>The upload pipeline (routes/svgs.js and models/Svg.js)\<close>

text \<open>
  \<^verbatim>\<open>routes/svgs.js\<close>, \<^verbatim>\<open>models/Svg.js\<close> and \<^verbatim>\<open>database.js\<close> are not among the
  sources. The definitions of this section follow the specification, sections 3, 4.2
  and 4.3; each says so.
\<close>

text \<open>Modelled from the spec: the error taxonomy of section 7 (the code that raises them is missing).\<close>

datatype error =
    ValidationError
  | InvalidFileTypeError
  | FileTooLargeError
  | NotFoundError
  | InvalidIdError
  | ConnectionError
  | NotConnectedError
  | StoreError
  | TimeoutError

text \<open>
  Modelled from the spec: the candidate file of section 4.2 (declared MIME type, filename,
  byte content; the byte size is the length of the content). The upload middleware of
  \<^verbatim>\<open>routes/svgs.js\<close> that builds it is missing.
\<close>

record upload =
  mimetype :: string
  originalname :: string
  bytes :: string

text \<open>Modelled from the spec: the size ceiling of section 4.2, 5 MiB.\<close>

definition max_file_size :: nat where
  "max_file_size = 5 * 1024 * 1024"

text \<open>
  Modelled from the spec: "the declared MIME type is an SVG-image type" of section 4.2,
  read as the type \<^verbatim>\<open>image/svg+xml\<close> of the scenario of section 8; the file filter of
  \<^verbatim>\<open>routes/svgs.js\<close> is missing.
\<close>

definition is_svg_mime :: "string \<Rightarrow> bool" where
  "is_svg_mime m = (m = ''image/svg+xml'')"

text \<open>
  Modelled from the spec: "the filename extension is .svg" of section 4.2, read as: the
  filename ends in \<^verbatim>\<open>.svg\<close>.
\<close>

definition has_svg_extension :: "string \<Rightarrow> bool" where
  "has_svg_extension filename = starts_with (rev ''.svg'') (rev filename)"

text \<open>
  Modelled from the spec: the Upload Validator of section 4.2, its three steps in their
  order. The validator of \<^verbatim>\<open>routes/svgs.js\<close> is missing.
\<close>

definition validate_upload :: "upload \<Rightarrow> error + string" where
  "validate_upload f =
     (if \<not> (is_svg_mime (mimetype f) \<or> has_svg_extension (originalname f)) then
        Inl InvalidFileTypeError
      else if length (bytes f) > max_file_size then Inl FileTooLargeError
      else Inr (bytes f))"

text \<open>
  Modelled from the spec: the Asset Record of section 3. The schema of
  \<^verbatim>\<open>models/Svg.js\<close> is missing. Identifiers are opaque; the store hands out the
  natural numbers in turn. Timestamps are readings of a clock.
\<close>

record asset =
  asset_id :: nat
  name :: string
  description :: string
  content :: string
  fileSize :: nat
  originalName :: string
  createdAt :: nat
  updatedAt :: nat

text \<open>
  Modelled from the spec: the one collection of Asset Records of section 6, in insertion
  order, with the next identifier to hand out (an identifier is never reused). The
  collection lives in the database behind \<^verbatim>\<open>database.js\<close>, which is missing.
\<close>

record store =
  docs :: "asset list"
  next_id :: nat

text \<open>Modelled from the spec: the collection before the first create.\<close>

definition empty_store :: store where
  "empty_store = \<lparr>docs = [], next_id = 0\<rparr>"

text \<open>
  Modelled from the spec: "id is unique across all records and never reused" of section 3,
  as the invariant that every identifier in the collection lies below the next one to
  hand out.
\<close>

definition wf_store :: "store \<Rightarrow> bool" where
  "wf_store s = list_all (\<lambda>r. asset_id r < next_id s) (docs s)"

text \<open>
  Modelled from the spec: create of section 4.3. The Upload Validator runs first (section
  2), then name and description are checked (name non-empty, description present), then
  the record is written with the derived \<open>fileSize\<close>. A missing form field is \<open>None\<close>.
  The handler of \<^verbatim>\<open>routes/svgs.js\<close> is missing.
\<close>

definition create ::
  "nat \<Rightarrow> string option \<Rightarrow> string option \<Rightarrow> upload \<Rightarrow> store \<Rightarrow> (error + asset) \<times> store" where
  "create now nm descr f s =
     (case validate_upload f of
        Inl e \<Rightarrow> (Inl e, s)
      | Inr text \<Rightarrow>
          (case (nm, descr) of
             (Some n, Some d) \<Rightarrow>
               if n = [] then (Inl ValidationError, s)
               else
                 (let r = \<lparr>asset_id = next_id s, name = n, description = d, content = text,
                            fileSize = length (bytes f), originalName = originalname f,
                            createdAt = now, updatedAt = now\<rparr>
                  in (Inr r, \<lparr>docs = docs s @ [r], next_id = Suc (next_id s)\<rparr>))
           | _ \<Rightarrow> (Inl ValidationError, s)))"

text \<open>
  Modelled from the spec: getById of section 4.3, on the identifiers the store hands out.
  The handler of \<^verbatim>\<open>routes/svgs.js\<close> is missing.
\<close>

definition getById :: "nat \<Rightarrow> store \<Rightarrow> error + asset" where
  "getById i s =
     (case find (\<lambda>r. asset_id r = i) (docs s) of
        None \<Rightarrow> Inl NotFoundError
      | Some r \<Rightarrow> Inr r)"

text \<open>Modelled from the spec: "contains q" of section 4.3, a substring at any position.\<close>

fun contains :: "string \<Rightarrow> string \<Rightarrow> bool" where
  "contains p [] = (p = [])"
| "contains p (c # cs) = (starts_with p (c # cs) \<or> contains p cs)"

text \<open>
  Modelled from the spec: "case-insensitive substring match" of section 4.3, both sides
  folded with \<open>to_lower\<close>. The query of \<^verbatim>\<open>routes/svgs.js\<close> is missing.
\<close>

definition contains_ci :: "string \<Rightarrow> string \<Rightarrow> bool" where
  "contains_ci q s = contains (map to_lower q) (map to_lower s)"

text \<open>
  Modelled from the spec: "applied to both name and description, result is the union" of
  section 4.3.
\<close>

definition matches :: "string \<Rightarrow> asset \<Rightarrow> bool" where
  "matches q r = (contains_ci q (name r) \<or> contains_ci q (description r))"

text \<open>
  Modelled from the spec: search of section 4.3. A missing or empty \<open>q\<close> is a
  ValidationError; otherwise the matching records come in the order of the store. The
  handler of \<^verbatim>\<open>routes/svgs.js\<close> is missing.
\<close>

definition search :: "string option \<Rightarrow> store \<Rightarrow> error + asset list" where
  "search q s =
     (case q of
        None \<Rightarrow> Inl ValidationError
      | Some t \<Rightarrow> if t = [] then Inl ValidationError else Inr (filter (matches t) (docs s)))"

text \<open>
  Modelled from the spec: the case-insensitive substring relation as section 4.3 words it,
  for comparison with \<open>contains_ci\<close>: the folded query occurs somewhere inside the folded
  text.
\<close>

definition occurs_ci :: "string \<Rightarrow> string \<Rightarrow> bool" where
  "occurs_ci q s = (\<exists>u v. map to_lower s = u @ map to_lower q @ v)"

section \<open>Properties of the CORS gate and the middleware chain\<close>

lemma indexOf_lower_bound: "- 1 \<le> indexOf xs x"
  by (induction xs) (auto simp: Let_def)

lemma indexOf_found_iff: "(indexOf xs x \<noteq> - 1) = (x \<in> set xs)"
proof (induction xs)
  case Nil
  show ?case by simp
next
  case (Cons y ys)
  have "- 1 \<le> indexOf ys x" by (rule indexOf_lower_bound)
  with Cons show ?case by (auto simp: Let_def)
qed

lemma origin_callback_cases:
  "origin_callback None = Inr True"
  "origin_callback (Some []) = Inr True"
  "s \<in> set allowedOrigins \<Longrightarrow> origin_callback (Some s) = Inr True"
  "s \<noteq> [] \<Longrightarrow> s \<notin> set allowedOrigins \<Longrightarrow> origin_callback (Some s) = Inl cors_error"
  by (simp_all add: origin_callback_def indexOf_found_iff)

lemma error_handler_cors_error:
  "status (error_handler node_env cors_error) = 500"
  by (simp add: error_handler_def cors_error_def)

lemma dispatch_blocked_origin:
  assumes "origin_callback (origin req) = Inl e"
  shows "dispatch (app d node_env) None req = ([CorsMw, ErrorMw], Some (error_handler node_env e))"
  using assms by (simp add: app_def cors_mw_def)

text \<open>
  C10, as the code has it. A request without an Origin header passes the CORS gate, and so
  does one whose Origin header is empty. A request whose Origin is a non-empty string
  outside the three allowed origins is refused by the gate with the error
  "Not allowed by CORS": of the whole chain only the CORS middleware and the error
  handler run, no route handler does, and the answer is the error handler's 500.
\<close>

theorem cors_gate:
  "origin_callback None = Inr True \<and>
   origin_callback (Some []) = Inr True \<and>
   (origin req = None \<longrightarrow> (\<forall>e. cors_mw req \<noteq> Fail e)) \<and>
   (origin req = Some s \<and> s \<noteq> [] \<and> s \<notin> set allowedOrigins \<longrightarrow>
      origin_callback (origin req) = Inl cors_error \<and>
      message cors_error = JStr ''Not allowed by CORS'' \<and>
      dispatch (app d node_env) None req =
        ([CorsMw, ErrorMw], Some (error_handler node_env cors_error)) \<and>
      set (fst (dispatch (app d node_env) None req)) \<inter> route_stages = {} \<and>
      status (error_handler node_env cors_error) = 500)"
proof -
  have gate: "origin req = None \<longrightarrow> (\<forall>e. cors_mw req \<noteq> Fail e)"
    by (simp add: cors_mw_def origin_callback_cases)
  have blocked:
    "origin_callback (origin req) = Inl cors_error \<and>
     message cors_error = JStr ''Not allowed by CORS'' \<and>
     dispatch (app d node_env) None req =
       ([CorsMw, ErrorMw], Some (error_handler node_env cors_error)) \<and>
     set (fst (dispatch (app d node_env) None req)) \<inter> route_stages = {} \<and>
     status (error_handler node_env cors_error) = 500"
    if h: "origin req = Some s" "s \<noteq> []" "s \<notin> set allowedOrigins"
  proof -
    from h have cb: "origin_callback (origin req) = Inl cors_error"
      by (simp add: origin_callback_cases)
    have run: "dispatch (app d node_env) None req =
        ([CorsMw, ErrorMw], Some (error_handler node_env cors_error))"
      by (rule dispatch_blocked_origin [OF cb])
    have msg: "message cors_error = JStr ''Not allowed by CORS''"
      by (simp add: cors_error_def)
    show ?thesis
      using cb run msg error_handler_cors_error [of node_env] by (simp add: route_stages_def)
  qed
  show ?thesis
    using gate blocked origin_callback_cases(1,2) by blast
qed

theorem cors_gate_witness:
  "origin \<lparr>req_method = ''GET'', path = ''/api/health'',
           origin = Some ''http://evil.example''\<rparr> = Some ''http://evil.example'' \<and>
   ''http://evil.example'' \<noteq> [] \<and>
   ''http://evil.example'' \<notin> set allowedOrigins \<and>
   dispatch
     (app \<lparr>json_parser = (\<lambda>_. Next), urlencoded_parser = (\<lambda>_. Next), svgRoutes = (\<lambda>_. Next),
           getDatabase = (\<lambda>_. Inr ()),
           clock = \<lparr>timestamp = ''2026-01-01T00:00:00.000Z'', uptime = JNum 1,
                    memory = JObj []\<rparr>\<rparr> None)
     None
     \<lparr>req_method = ''GET'', path = ''/api/health'', origin = Some ''http://evil.example''\<rparr> =
   ([CorsMw, ErrorMw],
    Some \<lparr>status = 500,
          body = Json [(''success'', JBool False),
                       (''message'', JStr ''Internal server error''),
                       (''error'', JStr ''Something went wrong'')]\<rparr>) \<and>
   origin \<lparr>req_method = ''GET'', path = ''/api/health'', origin = None\<rparr> = None \<and>
   cors_mw \<lparr>req_method = ''GET'', path = ''/api/health'', origin = None\<rparr> = Next"
proof -
  have out: "''http://evil.example'' \<notin> set allowedOrigins"
    by (simp add: allowedOrigins_def)
  have pass: "cors_mw \<lparr>req_method = ''GET'', path = ''/api/health'', origin = None\<rparr> = Next"
    by (simp add: cors_mw_def origin_callback_def)
  show ?thesis
    using out pass
      cors_gate [of "\<lparr>req_method = ''GET'', path = ''/api/health'',
                      origin = Some ''http://evil.example''\<rparr>"
                    "''http://evil.example''"
                    "\<lparr>json_parser = (\<lambda>_. Next), urlencoded_parser = (\<lambda>_. Next),
                      svgRoutes = (\<lambda>_. Next), getDatabase = (\<lambda>_. Inr ()),
                      clock = \<lparr>timestamp = ''2026-01-01T00:00:00.000Z'', uptime = JNum 1,
                               memory = JObj []\<rparr>\<rparr>"
                    None]
    by (simp add: error_handler_def cors_error_def json_def)
qed

text \<open>
  C10 as it is worded fails at the empty Origin value: the empty string is none of the
  three allowed origins, yet \<^verbatim>\<open>!origin\<close> holds of it and the gate lets the request pass to
  the rest of the chain.
\<close>

theorem cors_gate_empty_origin_counterexample:
  "[] \<notin> set allowedOrigins \<and>
   origin_callback (Some []) = Inr True \<and>
   cors_mw \<lparr>req_method = ''GET'', path = ''/api/health'', origin = Some []\<rparr> = Next"
  by (simp add: allowedOrigins_def origin_callback_def cors_mw_def)

section \<open>Properties of the error handler\<close>

lemma error_handler_status:
  "status (error_handler node_env e) =
     (if code e = JStr ''LIMIT_FILE_SIZE'' \<or> message e = JStr ''Only SVG files are allowed''
      then 400 else 500)"
  by (simp add: error_handler_def)

lemma error_handler_file_size:
  "code e = JStr ''LIMIT_FILE_SIZE'' \<Longrightarrow>
   error_handler node_env e =
     \<lparr>status = 400,
      body = Json [(''success'', JBool False),
                   (''message'', JStr ''File size too large. Maximum size is 5MB.'')]\<rparr>"
  by (simp add: error_handler_def json_def)

lemma error_handler_svg_only:
  "code e \<noteq> JStr ''LIMIT_FILE_SIZE'' \<Longrightarrow> message e = JStr ''Only SVG files are allowed'' \<Longrightarrow>
   error_handler node_env e =
     \<lparr>status = 400,
      body = Json [(''success'', JBool False),
                   (''message'', JStr ''Only SVG files are allowed'')]\<rparr>"
  by (simp add: error_handler_def json_def)

lemma error_handler_production:
  "node_env \<noteq> Some ''development'' \<Longrightarrow>
   error_handler node_env e =
     (if code e = JStr ''LIMIT_FILE_SIZE'' then
        \<lparr>status = 400,
         body = Json [(''success'', JBool False),
                      (''message'', JStr ''File size too large. Maximum size is 5MB.'')]\<rparr>
      else if message e = JStr ''Only SVG files are allowed'' then
        \<lparr>status = 400,
         body = Json [(''success'', JBool False),
                      (''message'', JStr ''Only SVG files are allowed'')]\<rparr>
      else
        \<lparr>status = 500,
         body = Json [(''success'', JBool False),
                      (''message'', JStr ''Internal server error''),
                      (''error'', JStr ''Something went wrong'')]\<rparr>)"
  by (simp add: error_handler_def json_def)

text \<open>
  C6. Outside development (\<^verbatim>\<open>NODE_ENV\<close> unset or different from \<^verbatim>\<open>development\<close>) the
  answer of the error handler is one of three constant responses, whatever error reached
  the handler: the two 400 answers with their fixed messages and the 500 answer with
  \<^verbatim>\<open>success: false\<close>, the message "Internal server error" and the error text
  "Something went wrong". The answer is the 500 one exactly when the error has neither the
  code \<^verbatim>\<open>LIMIT_FILE_SIZE\<close> nor the message "Only SVG files are allowed", and any two such
  errors get the same answer. In development the \<^verbatim>\<open>error\<close> field of the 500 answer is the
  message of the error itself (and is left out when the error has none).
\<close>

theorem error_handler_no_leak:
  "(node_env \<noteq> Some ''development'' \<longrightarrow>
      error_handler node_env e \<in>
        {\<lparr>status = 400,
          body = Json [(''success'', JBool False),
                       (''message'', JStr ''File size too large. Maximum size is 5MB.'')]\<rparr>,
         \<lparr>status = 400,
          body = Json [(''success'', JBool False),
                       (''message'', JStr ''Only SVG files are allowed'')]\<rparr>,
         \<lparr>status = 500,
          body = Json [(''success'', JBool False),
                       (''message'', JStr ''Internal server error''),
                       (''error'', JStr ''Something went wrong'')]\<rparr>}) \<and>
   (node_env \<noteq> Some ''development'' \<and>
    code e \<noteq> JStr ''LIMIT_FILE_SIZE'' \<and> message e \<noteq> JStr ''Only SVG files are allowed'' \<longrightarrow>
      error_handler node_env e =
        \<lparr>status = 500,
         body = Json [(''success'', JBool False),
                      (''message'', JStr ''Internal server error''),
                      (''error'', JStr ''Something went wrong'')]\<rparr>) \<and>
   (status (error_handler node_env e) = 500) =
     (code e \<noteq> JStr ''LIMIT_FILE_SIZE'' \<and> message e \<noteq> JStr ''Only SVG files are allowed'') \<and>
   (code e \<noteq> JStr ''LIMIT_FILE_SIZE'' \<and> message e \<noteq> JStr ''Only SVG files are allowed'' \<longrightarrow>
      status (error_handler (Some ''development'') e) = 500 \<and>
      field ''success'' (error_handler (Some ''development'') e) = Some (JBool False) \<and>
      field ''message'' (error_handler (Some ''development'') e) =
        Some (JStr ''Internal server error'') \<and>
      field ''error'' (error_handler (Some ''development'') e) =
        (if message e = JUndefined then None else Some (message e)))"
proof -
  have prod: "node_env \<noteq> Some ''development'' \<longrightarrow>
      error_handler node_env e =
        (if code e = JStr ''LIMIT_FILE_SIZE'' then
           \<lparr>status = 400,
            body = Json [(''success'', JBool False),
                         (''message'', JStr ''File size too large. Maximum size is 5MB.'')]\<rparr>
         else if message e = JStr ''Only SVG files are allowed'' then
           \<lparr>status = 400,
            body = Json [(''success'', JBool False),
                         (''message'', JStr ''Only SVG files are allowed'')]\<rparr>
         else
           \<lparr>status = 500,
            body = Json [(''success'', JBool False),
                         (''message'', JStr ''Internal server error''),
                         (''error'', JStr ''Something went wrong'')]\<rparr>)"
    by (simp add: error_handler_production)
  have st: "(status (error_handler node_env e) = 500) =
     (code e \<noteq> JStr ''LIMIT_FILE_SIZE'' \<and> message e \<noteq> JStr ''Only SVG files are allowed'')"
    by (simp add: error_handler_status)
  have dev: "code e \<noteq> JStr ''LIMIT_FILE_SIZE'' \<and> message e \<noteq> JStr ''Only SVG files are allowed'' \<longrightarrow>
      status (error_handler (Some ''development'') e) = 500 \<and>
      field ''success'' (error_handler (Some ''development'') e) = Some (JBool False) \<and>
      field ''message'' (error_handler (Some ''development'') e) =
        Some (JStr ''Internal server error'') \<and>
      field ''error'' (error_handler (Some ''development'') e) =
        (if message e = JUndefined then None else Some (message e))"
    by (simp add: error_handler_def json_def)
  from prod have one_of: "node_env \<noteq> Some ''development'' \<longrightarrow>
      error_handler node_env e \<in>
        {\<lparr>status = 400,
          body = Json [(''success'', JBool False),
                       (''message'', JStr ''File size too large. Maximum size is 5MB.'')]\<rparr>,
         \<lparr>status = 400,
          body = Json [(''success'', JBool False),
                       (''message'', JStr ''Only SVG files are allowed'')]\<rparr>,
         \<lparr>status = 500,
          body = Json [(''success'', JBool False),
                       (''message'', JStr ''Internal server error''),
                       (''error'', JStr ''Something went wrong'')]\<rparr>}"
    by (simp split: if_splits)
  from prod have fixed: "node_env \<noteq> Some ''development'' \<and>
    code e \<noteq> JStr ''LIMIT_FILE_SIZE'' \<and> message e \<noteq> JStr ''Only SVG files are allowed'' \<longrightarrow>
      error_handler node_env e =
        \<lparr>status = 500,
         body = Json [(''success'', JBool False),
                      (''message'', JStr ''Internal server error''),
                      (''error'', JStr ''Something went wrong'')]\<rparr>"
    by simp
  show ?thesis
    using one_of fixed st dev by blast
qed

theorem error_handler_no_leak_witness:
  "(None :: string option) \<noteq> Some ''development'' \<and>
   JStr ''ECONNREFUSED'' \<noteq> JStr ''LIMIT_FILE_SIZE'' \<and>
   JStr ''connect ECONNREFUSED 127.0.0.1:27017'' \<noteq> JStr ''Only SVG files are allowed'' \<and>
   error_handler None
     \<lparr>code = JStr ''ECONNREFUSED'',
      message = JStr ''connect ECONNREFUSED 127.0.0.1:27017''\<rparr> =
     \<lparr>status = 500,
      body = Json [(''success'', JBool False),
                   (''message'', JStr ''Internal server error''),
                   (''error'', JStr ''Something went wrong'')]\<rparr> \<and>
   status (error_handler (Some ''development'')
     \<lparr>code = JStr ''ECONNREFUSED'',
      message = JStr ''connect ECONNREFUSED 127.0.0.1:27017''\<rparr>) = 500 \<and>
   field ''error'' (error_handler (Some ''development'')
     \<lparr>code = JStr ''ECONNREFUSED'',
      message = JStr ''connect ECONNREFUSED 127.0.0.1:27017''\<rparr>) =
     Some (JStr ''connect ECONNREFUSED 127.0.0.1:27017'')"
  using error_handler_no_leak [of None
        "\<lparr>code = JStr ''ECONNREFUSED'',
          message = JStr ''connect ECONNREFUSED 127.0.0.1:27017''\<rparr>"]
  by simp

section \<open>Properties of the health check\<close>

lemma health_handler_nullish:
  "health_handler info (Inl ThrownNull) = Fail (type_error_reading_message ''null'')"
  "health_handler info (Inl ThrownUndefined) = Fail (type_error_reading_message ''undefined'')"
  by (simp_all add: health_handler_def)

lemma health_handler_responds_iff:
  "(\<exists>resp. health_handler info r = Respond resp) =
   (r \<noteq> Inl ThrownNull \<and> r \<noteq> Inl ThrownUndefined)"
proof (cases r)
  case (Inl t)
  then show ?thesis by (cases t) (simp_all add: health_handler_def)
next
  case (Inr db)
  then show ?thesis by (simp add: health_handler_def)
qed

text \<open>
  C8. When \<^verbatim>\<open>getDatabase()\<close> returns a handle the health check answers 200 with
  \<^verbatim>\<open>success: true\<close> and \<^verbatim>\<open>database: "connected"\<close> and no \<^verbatim>\<open>error\<close> field. When it
  throws an error the health check answers 200 with \<^verbatim>\<open>success: false\<close>,
  \<^verbatim>\<open>database: "disconnected"\<close> and an \<^verbatim>\<open>error\<close> field that is the message of the thrown
  error (left out when the thrown value has no message). An answer with
  \<^verbatim>\<open>success: true\<close>, or with \<^verbatim>\<open>database: "connected"\<close>, is given exactly when
  \<^verbatim>\<open>getDatabase()\<close> returned.
\<close>

theorem health_handler_reports_database:
  "(\<exists>resp. health_handler info (Inr db) = Respond resp \<and>
      status resp = 200 \<and>
      field ''success'' resp = Some (JBool True) \<and>
      field ''database'' resp = Some (JStr ''connected'') \<and>
      field ''error'' resp = None) \<and>
   (\<exists>resp. health_handler info (Inl (Thrown e)) = Respond resp \<and>
      status resp = 200 \<and>
      field ''success'' resp = Some (JBool False) \<and>
      field ''database'' resp = Some (JStr ''disconnected'') \<and>
      field ''error'' resp = (if message e = JUndefined then None else Some (message e))) \<and>
   (\<exists>resp. health_handler info r = Respond resp \<and>
      field ''success'' resp = Some (JBool True)) = (\<exists>h. r = Inr h) \<and>
   (\<exists>resp. health_handler info r = Respond resp \<and>
      field ''database'' resp = Some (JStr ''connected'')) = (\<exists>h. r = Inr h)"
proof -
  have ok: "\<exists>resp. health_handler info (Inr db) = Respond resp \<and>
      status resp = 200 \<and>
      field ''success'' resp = Some (JBool True) \<and>
      field ''database'' resp = Some (JStr ''connected'') \<and>
      field ''error'' resp = None"
    by (simp add: health_handler_def json_def)
  have bad: "\<exists>resp. health_handler info (Inl (Thrown e)) = Respond resp \<and>
      status resp = 200 \<and>
      field ''success'' resp = Some (JBool False) \<and>
      field ''database'' resp = Some (JStr ''disconnected'') \<and>
      field ''error'' resp = (if message e = JUndefined then None else Some (message e))"
    by (simp add: health_handler_def json_def)
  have only_s: "(\<exists>resp. health_handler info r = Respond resp \<and>
      field ''success'' resp = Some (JBool True)) = (\<exists>h. r = Inr h)"
  proof (cases r)
    case (Inl t)
    then show ?thesis by (cases t) (simp_all add: health_handler_def json_def)
  next
    case (Inr h)
    then show ?thesis by (simp add: health_handler_def json_def)
  qed
  have only_d: "(\<exists>resp. health_handler info r = Respond resp \<and>
      field ''database'' resp = Some (JStr ''connected'')) = (\<exists>h. r = Inr h)"
  proof (cases r)
    case (Inl t)
    then show ?thesis by (cases t) (simp_all add: health_handler_def json_def)
  next
    case (Inr h)
    then show ?thesis by (simp add: health_handler_def json_def)
  qed
  show ?thesis
    using ok bad only_s only_d by blast
qed

section \<open>Properties of the request timeout\<close>

lemma timeout_mw_arms:
  "timeout_mw req = (\<lparr>delay_ms = 30000, on_timeout = timeout_response\<rparr>, Next)"
  by (simp add: timeout_mw_def)

lemma timeout_response_fields:
  "timeout_response =
     \<lparr>status = 408,
      body = Json [(''success'', JBool False), (''message'', JStr ''Request timeout'')]\<rparr>"
  by (simp add: timeout_response_def json_def)

lemma armed_timer_after_cors:
  assumes "cors_mw req = Next"
  shows "armed_timer d node_env req =
           Some \<lparr>delay_ms = 30000, on_timeout = timeout_response\<rparr>"
proof -
  have "TimeoutMw \<in> set (fst (dispatch (app d node_env) None req))"
    using assms by (simp add: app_def timeout_mw_def split: prod.splits)
  then show ?thesis
    by (simp add: armed_timer_def timeout_mw_def)
qed

lemma socket_timeout_incomplete:
  "\<not> received_complete w \<Longrightarrow> 30000 \<le> idle_ms w \<Longrightarrow>
   socket_timeout (fst (timeout_mw req)) w = CallbackAnswers timeout_response"
  by (simp add: socket_timeout_def timeout_mw_def)

text \<open>
  C7 asks that a request not completed within 30 seconds be answered with status 408 and
  the body \<^verbatim>\<open>{success: false, message: "Request timeout"}\<close>. The middleware arms exactly
  that answer with a delay of 30000 ms, but the timer it arms measures the inactivity of
  the socket while the request is still being received. Two requests that are 30 and more
  seconds old and not answered, and get no 408: one whose body still trickles in (the
  socket was active 5 seconds ago), and one that was received completely and whose
  handler has not answered (the socket is destroyed instead).
\<close>

theorem timeout_not_answered_408:
  "fst (timeout_mw ()) = \<lparr>delay_ms = 30000, on_timeout = timeout_response\<rparr> \<and>
   status timeout_response = 408 \<and>
   30000 \<le> elapsed_ms \<lparr>received_complete = False, idle_ms = 5000, elapsed_ms = 35000\<rparr> \<and>
   socket_timeout (fst (timeout_mw ()))
     \<lparr>received_complete = False, idle_ms = 5000, elapsed_ms = 35000\<rparr> = NothingYet \<and>
   30000 \<le> elapsed_ms \<lparr>received_complete = True, idle_ms = 30000, elapsed_ms = 30000\<rparr> \<and>
   socket_timeout (fst (timeout_mw ()))
     \<lparr>received_complete = True, idle_ms = 30000, elapsed_ms = 30000\<rparr> = SocketDestroyed"
  by (simp add: timeout_mw_def socket_timeout_def timeout_response_def)

section \<open>Properties of startup and shutdown\<close>

text \<open>
  C5. When the awaited \<^verbatim>\<open>connectToDatabase()\<close> is rejected, \<^verbatim>\<open>startServer\<close> logs the
  error and exits with code 1, and \<^verbatim>\<open>app.listen\<close> is never called. In every run
  \<^verbatim>\<open>app.listen\<close> is called only when the connect was fulfilled, and the connect is the
  first thing that happens.
\<close>

theorem startServer_connect_failure:
  "startServer port (Rejected e) lr = [ConnectCalled, ErrorLogged e, ExitCalled 1] \<and>
   (\<forall>p. ListenCalled p \<notin> set (startServer port (Rejected e) lr)) \<and>
   (\<forall>p. ListenCalled p \<notin> set (startServer port Pending lr)) \<and>
   (ListenCalled p \<in> set (startServer port cr lr)) = (p = port \<and> cr = Fulfilled ()) \<and>
   hd (startServer port cr lr) = ConnectCalled"
  by (cases cr; cases lr) (auto simp: startServer_def)

text \<open>
  The signal handlers. On SIGINT and on SIGTERM the handler logs, calls
  \<^verbatim>\<open>closeDatabaseConnection()\<close> and, once the awaited call is fulfilled, exits with code
  0. The handlers have no \<^verbatim>\<open>try\<close>: \<^verbatim>\<open>process.exit\<close> is reached exactly when the awaited
  call is fulfilled. Whether the call can end otherwise is decided in \<^verbatim>\<open>database.js\<close>.
\<close>

lemma on_signal_fulfilled:
  "on_signal sig (Fulfilled ()) = [Logged shutdown_message, CloseCalled, ExitCalled 0]"
  by (cases sig) (simp_all add: on_SIGINT_def on_SIGTERM_def)

lemma on_signal_rejected:
  "on_signal sig (Rejected e) = [Logged shutdown_message, CloseCalled, UnhandledRejection e]"
  by (cases sig) (simp_all add: on_SIGINT_def on_SIGTERM_def)

lemma on_signal_calls_close: "CloseCalled \<in> set (on_signal sig c)"
  by (cases sig; cases c) (auto simp: on_SIGINT_def on_SIGTERM_def)

lemma on_signal_exit_iff:
  "(ExitCalled n \<in> set (on_signal sig c)) = (n = 0 \<and> c = Fulfilled ())"
  by (cases sig; cases c) (auto simp: on_SIGINT_def on_SIGTERM_def)

section \<open>Properties of the upload pipeline\<close>

lemma wf_empty_store: "wf_store empty_store"
  by (simp add: wf_store_def empty_store_def)

lemma list_all_less_Suc:
  "list_all (\<lambda>r. asset_id r < n) xs \<Longrightarrow> list_all (\<lambda>r. asset_id r < Suc n) xs"
  by (induction xs) auto

lemma create_preserves_wf:
  assumes "wf_store s"
  shows "wf_store (snd (create now nm descr f s))"
  using assms
  by (auto simp: create_def wf_store_def Let_def list_all_less_Suc
           split: sum.splits option.splits)

lemma create_failure_keeps_store:
  "create now nm descr f s = (Inl e, s') \<Longrightarrow> s' = s"
  by (auto simp: create_def Let_def split: sum.splits option.splits if_splits)

lemma find_fresh_id:
  "list_all (\<lambda>x. asset_id x < n) xs \<Longrightarrow> asset_id r = n \<Longrightarrow>
   find (\<lambda>x. asset_id x = n) (xs @ [r]) = Some r"
  by (induction xs) auto

lemma validate_upload_accepts:
  "is_svg_mime (mimetype f) \<or> has_svg_extension (originalname f) \<Longrightarrow>
   length (bytes f) \<le> max_file_size \<Longrightarrow> validate_upload f = Inr (bytes f)"
  by (auto simp: validate_upload_def)

text \<open>
  C1. On a store whose identifiers all lie below the next identifier to hand out, create
  with a non-empty name, a present description and an SVG file of at most 5 MiB succeeds,
  and getById with the identifier of the new record returns that record: its name,
  description, content and originalName are those of the input, and its fileSize is the
  byte length of the uploaded content.
\<close>

theorem create_then_getById:
  assumes "wf_store s"
    and "nm \<noteq> []"
    and "is_svg_mime (mimetype f) \<or> has_svg_extension (originalname f)"
    and "length (bytes f) \<le> max_file_size"
  shows "\<exists>r s'. create now (Some nm) (Some d) f s = (Inr r, s') \<and>
           getById (asset_id r) s' = Inr r \<and>
           name r = nm \<and> description r = d \<and> content r = bytes f \<and>
           originalName r = originalname f \<and>
           fileSize r = length (bytes f) \<and> fileSize r = length (content r)"
proof -
  define r where
    "r = \<lparr>asset_id = next_id s, name = nm, description = d, content = bytes f,
          fileSize = length (bytes f), originalName = originalname f,
          createdAt = now, updatedAt = now\<rparr>"
  define s' where "s' = \<lparr>docs = docs s @ [r], next_id = Suc (next_id s)\<rparr>"
  have ok: "validate_upload f = Inr (bytes f)"
    using assms(3,4) by (rule validate_upload_accepts)
  have made: "create now (Some nm) (Some d) f s = (Inr r, s')"
    using ok assms(2) by (simp add: create_def r_def s'_def Let_def)
  have below: "list_all (\<lambda>x. asset_id x < next_id s) (docs s)"
    using assms(1) by (simp add: wf_store_def)
  have "find (\<lambda>x. asset_id x = next_id s) (docs s @ [r]) = Some r"
    using below by (rule find_fresh_id) (simp add: r_def)
  then have got: "getById (asset_id r) s' = Inr r"
    by (simp add: getById_def s'_def r_def)
  show ?thesis
    using made got by (simp add: r_def)
qed

theorem create_then_getById_witness:
  "wf_store empty_store \<and>
   ''My Icon'' \<noteq> [] \<and>
   (is_svg_mime ''image/svg+xml'' \<or> has_svg_extension ''icon.svg'') \<and>
   length ''<svg/>'' \<le> max_file_size \<and>
   (\<exists>r s'. create 7 (Some ''My Icon'') (Some ''A beautiful icon'')
              \<lparr>mimetype = ''image/svg+xml'', originalname = ''icon.svg'', bytes = ''<svg/>''\<rparr>
              empty_store = (Inr r, s') \<and>
            getById (asset_id r) s' = Inr r \<and>
            name r = ''My Icon'' \<and> description r = ''A beautiful icon'' \<and>
            content r = ''<svg/>'' \<and> originalName r = ''icon.svg'' \<and> fileSize r = 6)"
proof -
  have h1: "wf_store empty_store" by (rule wf_empty_store)
  have h2: "''My Icon'' \<noteq> []" by simp
  have h3: "is_svg_mime (mimetype \<lparr>mimetype = ''image/svg+xml'', originalname = ''icon.svg'',
                bytes = ''<svg/>''\<rparr>) \<or>
            has_svg_extension (originalname \<lparr>mimetype = ''image/svg+xml'',
                originalname = ''icon.svg'', bytes = ''<svg/>''\<rparr>)"
    by (simp add: is_svg_mime_def)
  have h4: "length (bytes \<lparr>mimetype = ''image/svg+xml'', originalname = ''icon.svg'',
                bytes = ''<svg/>''\<rparr>) \<le> max_file_size"
    by (simp add: max_file_size_def)
  from create_then_getById [OF h1 h2 h3 h4, of 7 "''A beautiful icon''"]
  obtain r s' where
    made: "create 7 (Some ''My Icon'') (Some ''A beautiful icon'')
             \<lparr>mimetype = ''image/svg+xml'', originalname = ''icon.svg'', bytes = ''<svg/>''\<rparr>
             empty_store = (Inr r, s')"
    and got: "getById (asset_id r) s' = Inr r"
    and fields: "name r = ''My Icon''" "description r = ''A beautiful icon''"
      "content r = ''<svg/>''" "originalName r = ''icon.svg''"
    and len: "fileSize r = length ''<svg/>''"
    by auto
  from len have six: "fileSize r = 6" by simp
  have "\<exists>r s'. create 7 (Some ''My Icon'') (Some ''A beautiful icon'')
              \<lparr>mimetype = ''image/svg+xml'', originalname = ''icon.svg'', bytes = ''<svg/>''\<rparr>
              empty_store = (Inr r, s') \<and>
            getById (asset_id r) s' = Inr r \<and>
            name r = ''My Icon'' \<and> description r = ''A beautiful icon'' \<and>
            content r = ''<svg/>'' \<and> originalName r = ''icon.svg'' \<and> fileSize r = 6"
    using made got fields six by blast
  moreover have "is_svg_mime ''image/svg+xml'' \<or> has_svg_extension ''icon.svg''"
    by (simp add: is_svg_mime_def)
  moreover have "length ''<svg/>'' \<le> max_file_size"
    by (simp add: max_file_size_def)
  ultimately show ?thesis
    using h1 by simp
qed

text \<open>
  C2. For a file whose declared MIME type is not the SVG type and whose filename does not
  end in \<^verbatim>\<open>.svg\<close>, create fails with InvalidFileTypeError, whatever the name, the
  description and the size, and the store is the one before the call.
\<close>

theorem create_rejects_non_svg:
  assumes "\<not> is_svg_mime (mimetype f)"
    and "\<not> has_svg_extension (originalname f)"
  shows "create now nm descr f s = (Inl InvalidFileTypeError, s) \<and>
         docs (snd (create now nm descr f s)) = docs s"
  using assms by (simp add: create_def validate_upload_def)

theorem create_rejects_non_svg_witness:
  "\<not> is_svg_mime ''text/plain'' \<and>
   \<not> has_svg_extension ''notes.txt'' \<and>
   create 7 (Some ''Notes'') (Some ''plain text'')
     \<lparr>mimetype = ''text/plain'', originalname = ''notes.txt'', bytes = ''hello''\<rparr>
     empty_store = (Inl InvalidFileTypeError, empty_store)"
proof -
  have h1: "\<not> is_svg_mime (mimetype \<lparr>mimetype = ''text/plain'', originalname = ''notes.txt'',
                bytes = ''hello''\<rparr>)"
    by (simp add: is_svg_mime_def)
  have h2: "\<not> has_svg_extension (originalname \<lparr>mimetype = ''text/plain'',
                originalname = ''notes.txt'', bytes = ''hello''\<rparr>)"
    by (simp add: has_svg_extension_def)
  show ?thesis
    using h1 h2 create_rejects_non_svg [OF h1 h2, of 7 "Some ''Notes''" "Some ''plain text''" empty_store]
    by simp
qed

text \<open>
  The order of the validator's two checks, as section 4.2 numbers them: a file that passes
  the type check and exceeds 5 MiB is refused as too large, and a file that fails the
  type check is refused for its type whatever its size.
\<close>

lemma create_rejects_large_svg:
  assumes "is_svg_mime (mimetype f) \<or> has_svg_extension (originalname f)"
    and "max_file_size < length (bytes f)"
  shows "create now nm descr f s = (Inl FileTooLargeError, s)"
  using assms by (auto simp: create_def validate_upload_def)

lemma validate_upload_large_non_svg:
  "validate_upload
     \<lparr>mimetype = ''text/plain'', originalname = ''big.txt'',
      bytes = replicate 5242881 CHR ''a''\<rparr> = Inl InvalidFileTypeError"
  by (simp add: validate_upload_def is_svg_mime_def has_svg_extension_def)

lemma starts_with_iff: "starts_with p s = (\<exists>v. s = p @ v)"
  by (induction p s rule: starts_with.induct) auto

lemma contains_iff: "contains p s = (\<exists>u v. s = u @ p @ v)"
proof (induction s)
  case Nil
  show ?case by auto
next
  case (Cons c cs)
  show ?case
  proof
    assume "contains p (c # cs)"
    then consider "starts_with p (c # cs)" | "contains p cs" by auto
    then show "\<exists>u v. c # cs = u @ p @ v"
    proof cases
      case 1
      then obtain v where "c # cs = p @ v" by (auto simp: starts_with_iff)
      then have "c # cs = [] @ p @ v" by simp
      then show ?thesis by blast
    next
      case 2
      with Cons obtain u v where "cs = u @ p @ v" by auto
      then have "c # cs = (c # u) @ p @ v" by simp
      then show ?thesis by blast
    qed
  next
    assume "\<exists>u v. c # cs = u @ p @ v"
    then obtain u v where uv: "c # cs = u @ p @ v" by blast
    show "contains p (c # cs)"
    proof (cases u)
      case Nil
      with uv have "starts_with p (c # cs)" by (auto simp: starts_with_iff)
      then show ?thesis by simp
    next
      case (Cons a u')
      with uv have "cs = u' @ p @ v" by simp
      with Cons.IH have "contains p cs" by blast
      then show ?thesis by simp
    qed
  qed
qed

lemma contains_ci_iff: "contains_ci q s = occurs_ci q s"
  by (simp add: contains_ci_def occurs_ci_def contains_iff)

lemma matches_iff: "matches q r = (occurs_ci q (name r) \<or> occurs_ci q (description r))"
  by (simp add: matches_def contains_ci_iff)

text \<open>
  C4. A missing and an empty query fail with ValidationError. For a non-empty query
  search succeeds, and its result is the records of the store, in the order of the store,
  whose name or description contains the query as a case-insensitive substring: exactly
  those records, and an empty sequence when there is none.
\<close>

theorem search_exact:
  "search None s = Inl ValidationError \<and>
   search (Some []) s = Inl ValidationError \<and>
   (q \<noteq> [] \<longrightarrow>
      (\<exists>rs. search (Some q) s = Inr rs \<and>
            rs = filter (\<lambda>r. occurs_ci q (name r) \<or> occurs_ci q (description r)) (docs s) \<and>
            set rs = {r. r \<in> set (docs s) \<and> (occurs_ci q (name r) \<or> occurs_ci q (description r))} \<and>
            (rs = []) = (\<forall>r. r \<in> set (docs s) \<longrightarrow>
                           \<not> (occurs_ci q (name r) \<or> occurs_ci q (description r)))))"
proof -
  have same: "filter (matches q) (docs s) =
      filter (\<lambda>r. occurs_ci q (name r) \<or> occurs_ci q (description r)) (docs s)"
    by (rule filter_cong) (simp_all add: matches_iff)
  have hit: "search (Some q) s = Inr (filter (matches q) (docs s))" if "q \<noteq> []"
    using that by (simp add: search_def)
  have empty: "(filter P xs = []) = (\<forall>r. r \<in> set xs \<longrightarrow> \<not> P r)" for P :: "asset \<Rightarrow> bool" and xs
    by (auto simp: filter_empty_conv)
  show ?thesis
    using hit same empty [of "\<lambda>r. occurs_ci q (name r) \<or> occurs_ci q (description r)" "docs s"]
    by (auto simp: search_def)
qed

theorem search_exact_witness:
  "''icon'' \<noteq> [] \<and>
   search (Some ''icon'')
     \<lparr>docs = [\<lparr>asset_id = 0, name = ''My Icon'', description = ''A beautiful picture'',
               content = ''<svg/>'', fileSize = 6, originalName = ''icon.svg'',
               createdAt = 7, updatedAt = 7\<rparr>,
              \<lparr>asset_id = 1, name = ''Logo'', description = ''brand mark'',
               content = ''<svg></svg>'', fileSize = 11, originalName = ''logo.svg'',
               createdAt = 8, updatedAt = 8\<rparr>,
              \<lparr>asset_id = 2, name = ''Arrow'', description = ''Toolbar ICONS, left'',
               content = ''<svg/>'', fileSize = 6, originalName = ''arrow.svg'',
               createdAt = 9, updatedAt = 9\<rparr>],
      next_id = 3\<rparr> =
   Inr [\<lparr>asset_id = 0, name = ''My Icon'', description = ''A beautiful picture'',
         content = ''<svg/>'', fileSize = 6, originalName = ''icon.svg'',
         createdAt = 7, updatedAt = 7\<rparr>,
        \<lparr>asset_id = 2, name = ''Arrow'', description = ''Toolbar ICONS, left'',
         content = ''<svg/>'', fileSize = 6, originalName = ''arrow.svg'',
         createdAt = 9, updatedAt = 9\<rparr>] \<and>
   filter (\<lambda>r. occurs_ci ''icon'' (name r) \<or> occurs_ci ''icon'' (description r))
     [\<lparr>asset_id = 0, name = ''My Icon'', description = ''A beautiful picture'',
       content = ''<svg/>'', fileSize = 6, originalName = ''icon.svg'',
       createdAt = 7, updatedAt = 7\<rparr>,
      \<lparr>asset_id = 1, name = ''Logo'', description = ''brand mark'',
       content = ''<svg></svg>'', fileSize = 11, originalName = ''logo.svg'',
       createdAt = 8, updatedAt = 8\<rparr>,
      \<lparr>asset_id = 2, name = ''Arrow'', description = ''Toolbar ICONS, left'',
       content = ''<svg/>'', fileSize = 6, originalName = ''arrow.svg'',
       createdAt = 9, updatedAt = 9\<rparr>] =
   [\<lparr>asset_id = 0, name = ''My Icon'', description = ''A beautiful picture'',
     content = ''<svg/>'', fileSize = 6, originalName = ''icon.svg'',
     createdAt = 7, updatedAt = 7\<rparr>,
    \<lparr>asset_id = 2, name = ''Arrow'', description = ''Toolbar ICONS, left'',
     content = ''<svg/>'', fileSize = 6, originalName = ''arrow.svg'',
     createdAt = 9, updatedAt = 9\<rparr>]"
proof -
  have q: "''icon'' \<noteq> []" by simp
  have run: "search (Some ''icon'')
     \<lparr>docs = [\<lparr>asset_id = 0, name = ''My Icon'', description = ''A beautiful picture'',
               content = ''<svg/>'', fileSize = 6, originalName = ''icon.svg'',
               createdAt = 7, updatedAt = 7\<rparr>,
              \<lparr>asset_id = 1, name = ''Logo'', description = ''brand mark'',
               content = ''<svg></svg>'', fileSize = 11, originalName = ''logo.svg'',
               createdAt = 8, updatedAt = 8\<rparr>,
              \<lparr>asset_id = 2, name = ''Arrow'', description = ''Toolbar ICONS, left'',
               content = ''<svg/>'', fileSize = 6, originalName = ''arrow.svg'',
               createdAt = 9, updatedAt = 9\<rparr>],
      next_id = 3\<rparr> =
   Inr [\<lparr>asset_id = 0, name = ''My Icon'', description = ''A beautiful picture'',
         content = ''<svg/>'', fileSize = 6, originalName = ''icon.svg'',
         createdAt = 7, updatedAt = 7\<rparr>,
        \<lparr>asset_id = 2, name = ''Arrow'', description = ''Toolbar ICONS, left'',
         content = ''<svg/>'', fileSize = 6, originalName = ''arrow.svg'',
         createdAt = 9, updatedAt = 9\<rparr>]"
    by code_simp
  show ?thesis
    using q run
      search_exact [of "\<lparr>docs = [\<lparr>asset_id = 0, name = ''My Icon'',
               description = ''A beautiful picture'',
               content = ''<svg/>'', fileSize = 6, originalName = ''icon.svg'',
               createdAt = 7, updatedAt = 7\<rparr>,
              \<lparr>asset_id = 1, name = ''Logo'', description = ''brand mark'',
               content = ''<svg></svg>'', fileSize = 11, originalName = ''logo.svg'',
               createdAt = 8, updatedAt = 8\<rparr>,
              \<lparr>asset_id = 2, name = ''Arrow'', description = ''Toolbar ICONS, left'',
               content = ''<svg/>'', fileSize = 6, originalName = ''arrow.svg'',
               createdAt = 9, updatedAt = 9\<rparr>],
      next_id = 3\<rparr>" "''icon''"]
    by simp
qed

end
